theory Spec2Isabelle
  imports Main
begin

section \<open>Values, exceptions and outcomes\<close>

text \<open>
  The Python values that travel through \<^verbatim>\<open>RequestHandler\<close>: what \<^verbatim>\<open>response.json()\<close>
  returns, the raw \<^verbatim>\<open>response.text\<close>, the fields of a parameter object, and \<^verbatim>\<open>None\<close>.
  JSON \<^verbatim>\<open>null\<close> is Python's \<^verbatim>\<open>None\<close>, so both are \<open>PNone\<close>. JSON numbers with a
  fraction are not represented: no operation of the module inspects a payload.
\<close>

datatype pyval =
    PNone
  | PBool bool
  | PInt int
  | PStr string
  | PList "pyval list"
  | PDict "(string \<times> pyval) list"

text \<open>
  The subclasses of \<^verbatim>\<open>requests.exceptions.RequestException\<close> that a call can meet:
  the transport's own failures, \<^verbatim>\<open>HTTPError\<close> from \<^verbatim>\<open>raise_for_status\<close> and
  \<^verbatim>\<open>JSONDecodeError\<close> from \<^verbatim>\<open>response.json()\<close>, which is a
  \<^verbatim>\<open>RequestException\<close> from requests 2.27 on (the module needs pydantic 2, which is
  younger).
\<close>

datatype requests_error =
    ConnectionError
  | Timeout
  | HTTPError int
  | JSONDecodeError

text \<open>
  The exceptions of the module's world. Only \<open>RequestException\<close> and
  \<open>ValidationError\<close> are named by an \<^verbatim>\<open>except\<close> clause of the module.
\<close>

datatype py_exception =
    RequestException requests_error
  | ValidationError
  | KeyError string
  | IndexError
  | ValueError
  | TypeError
  | OverflowError
  | RecursionError

text \<open>
  What a call does from the caller's side: it returns a value or raises. \<open>Unmodelled\<close>
  marks the inputs on which this development does not say what Python does (see
  \<open>render_field\<close>).
\<close>

datatype 'a outcome = Returned 'a | Raised py_exception | Unmodelled

fun outcome_bind :: "'a outcome \<Rightarrow> ('a \<Rightarrow> 'b outcome) \<Rightarrow> 'b outcome" where
  "outcome_bind (Returned x) f = f x"
| "outcome_bind (Raised e) f = Raised e"
| "outcome_bind Unmodelled f = Unmodelled"

text \<open>Sequencing inside a \<^verbatim>\<open>try\<close> block: the first exception ends the block.\<close>

fun try_bind :: "py_exception + 'a \<Rightarrow> ('a \<Rightarrow> py_exception + 'b) \<Rightarrow> py_exception + 'b" where
  "try_bind (Inl e) f = Inl e"
| "try_bind (Inr x) f = f x"

section \<open>\<^verbatim>\<open>str\<close> of an integer and \<^verbatim>\<open>str.format\<close>\<close>

definition digit_char :: "nat \<Rightarrow> char" where
  "digit_char n = ''0123456789'' ! n"

function str_nat :: "nat \<Rightarrow> string" where
  "str_nat n = (if n < 10 then [digit_char n] else str_nat (n div 10) @ [digit_char (n mod 10)])"
  by pat_completeness auto
termination
  by (relation "measure (\<lambda>n. n)") auto

declare str_nat.simps [simp del]

text \<open>
  Python's \<^verbatim>\<open>str(i)\<close> for an \<^verbatim>\<open>int\<close>: decimal digits, with a leading minus sign. The
  interpreter's configurable cap on the length of a decimal conversion is not modelled.
\<close>

definition str_int :: "int \<Rightarrow> string" where
  "str_int i = (if i < 0 then CHR ''-'' # str_nat (nat (- i)) else str_nat (nat i))"

text \<open>
  \<^verbatim>\<open>format(v, '')\<close>, which is \<^verbatim>\<open>str(v)\<close> for these types. A list or a dict prints the
  \<^verbatim>\<open>repr\<close> of its elements, which is left out: \<open>None\<close>.
\<close>

fun py_str :: "pyval \<Rightarrow> string option" where
  "py_str PNone = Some ''None''"
| "py_str (PBool b) = Some (if b then ''True'' else ''False'')"
| "py_str (PInt i) = Some (str_int i)"
| "py_str (PStr s) = Some s"
| "py_str (PList xs) = None"
| "py_str (PDict kvs) = None"

text \<open>The text of a replacement field, up to its closing brace, and what follows it.\<close>

fun split_field :: "string \<Rightarrow> (string \<times> string) option" where
  "split_field [] = None"
| "split_field (c # cs) =
     (if c = CHR ''}'' then Some ([], cs)
      else (case split_field cs of None \<Rightarrow> None | Some (f, r) \<Rightarrow> Some (c # f, r)))"

definition is_digit :: "char \<Rightarrow> bool" where
  "is_digit c = (c \<in> set ''0123456789'')"

text \<open>
  One replacement field \<^verbatim>\<open>{f}\<close> of \<^verbatim>\<open>template.format(**kw)\<close>; no positional argument
  is ever passed.
  \<^item> An empty or numeric field names a positional argument: \<^verbatim>\<open>IndexError\<close>.
  \<^item> Any other plain name is looked up among the keywords: \<^verbatim>\<open>KeyError\<close> when it is
    missing, else the value is formatted with the empty format spec.
  \<^item> A field with a conversion (\<^verbatim>\<open>!\<close>), a format spec (\<^verbatim>\<open>:\<close>), an attribute or
    index accessor (\<^verbatim>\<open>.\<close>, \<^verbatim>\<open>[\<close>) or a nested brace, and a numeric field too long
    for a machine index, are outside this model: \<open>Unmodelled\<close>.
\<close>

definition render_field :: "string \<Rightarrow> (string \<times> pyval) list \<Rightarrow> string outcome" where
  "render_field f kw =
     (if list_ex (\<lambda>c. c \<in> set ''{!:.['') f then Unmodelled
      else if list_all is_digit f then (if length f \<le> 9 then Raised IndexError else Unmodelled)
      else (case map_of kw f of
              None \<Rightarrow> Raised (KeyError f)
            | Some v \<Rightarrow> (case py_str v of None \<Rightarrow> Unmodelled | Some s \<Rightarrow> Returned s)))"

text \<open>
  \<^verbatim>\<open>template.format(**kw)\<close>, left to right: literal text is copied, \<^verbatim>\<open>{{\<close> and
  \<^verbatim>\<open>}}\<close> are the escaped braces, a single \<^verbatim>\<open>}\<close> or an unclosed \<^verbatim>\<open>{\<close> is a
  \<^verbatim>\<open>ValueError\<close>, and the first field that raises ends the call. A substituted value
  is not scanned again.
\<close>

function str_format :: "string \<Rightarrow> (string \<times> pyval) list \<Rightarrow> string outcome" where
  "str_format [] kw = Returned []"
| "str_format (c # cs) kw =
     (if c = CHR ''{'' then
        (case cs of
           [] \<Rightarrow> Raised ValueError
         | d # ds \<Rightarrow>
             if d = CHR ''{'' then
               outcome_bind (str_format ds kw) (\<lambda>t. Returned (CHR ''{'' # t))
             else
               (case split_field cs of
                  None \<Rightarrow> Raised ValueError
                | Some (f, rest) \<Rightarrow>
                    outcome_bind (render_field f kw) (\<lambda>s.
                    outcome_bind (str_format rest kw) (\<lambda>t. Returned (s @ t)))))
      else if c = CHR ''}'' then
        (case cs of
           [] \<Rightarrow> Raised ValueError
         | d # ds \<Rightarrow>
             if d = CHR ''}'' then
               outcome_bind (str_format ds kw) (\<lambda>t. Returned (CHR ''}'' # t))
             else Raised ValueError)
      else outcome_bind (str_format cs kw) (\<lambda>t. Returned (c # t)))"
  by pat_completeness auto
termination
proof (relation "measure (\<lambda>(t, kw). length t)")
  fix c :: char and cs and kw :: "(string \<times> pyval) list" and d ds x f rest s
  assume "cs = d # ds" and "split_field cs = Some x" and "(f, rest) = x"
  then have "split_field cs = Some (f, rest)"
    by simp
  then have "length rest < length cs"
    by (induction cs arbitrary: f rest) (auto split: if_splits option.splits)
  then show "((rest, kw), (c # cs, kw)) \<in> measure (\<lambda>(t, kw). length t)"
    by simp
qed auto

section \<open>The transport, the schemas and the handler\<close>

datatype verb = GET | POST | DELETE

text \<open>
  A pydantic \<^verbatim>\<open>BaseModel\<close> instance used as a parameter object, represented by the
  dict that \<^verbatim>\<open>model_dump()\<close> (or \<^verbatim>\<open>dict()\<close>) returns. Any instance is truthy, also
  one without fields.
\<close>

type_synonym BaseModel = "(string \<times> pyval) list"

text \<open>
  A response model class, represented by its validation (\<^verbatim>\<open>parse_obj\<close>,
  \<^verbatim>\<open>model_validate\<close>): \<open>None\<close> stands for \<^verbatim>\<open>ValidationError\<close>.
\<close>

type_synonym 'm response_model = "pyval \<Rightarrow> 'm option"

text \<open>The arguments of one call of \<^verbatim>\<open>requests.get\<close>, \<^verbatim>\<open>.post\<close> or \<^verbatim>\<open>.delete\<close>.\<close>

record request =
  req_verb :: verb
  req_url :: string
  req_headers :: "string \<rightharpoonup> string"
  req_params :: "BaseModel option"
  req_json :: "BaseModel option"
  req_timeout :: int

text \<open>
  The response object: \<open>content_type\<close> is \<^verbatim>\<open>response.headers.get('Content-Type')\<close>
  and \<open>resp_text\<close> is \<^verbatim>\<open>response.text\<close>.
\<close>

record response =
  status_code :: int
  content_type :: "string option"
  resp_text :: string

text \<open>
  The external collaborators. \<open>transport\<close> is the call into \<^verbatim>\<open>requests\<close>: it answers
  with a response or raises. A failure of the network is a \<^verbatim>\<open>RequestException\<close>; an
  argument the library refuses is not: a timeout that is zero or negative is a
  \<^verbatim>\<open>ValueError\<close>, one too large for the socket an \<^verbatim>\<open>OverflowError\<close>, a body
  that cannot be serialised a \<^verbatim>\<open>TypeError\<close>. \<open>json_loads\<close> is the decoder behind
  \<^verbatim>\<open>response.json()\<close>: it returns the value or raises, \<^verbatim>\<open>JSONDecodeError\<close> for a
  text that is not JSON and \<^verbatim>\<open>RecursionError\<close> for one nested too deep.
\<close>

record env =
  transport :: "request \<Rightarrow> py_exception + response"
  json_loads :: "string \<Rightarrow> py_exception + pyval"

text \<open>
  \<^verbatim>\<open>Response.raise_for_status()\<close> of the requests library raises \<^verbatim>\<open>HTTPError\<close> for a
  client error (400 to 499) or a server error (500 to 599), and for no other status.
\<close>

definition raise_for_status :: "response \<Rightarrow> py_exception + unit" where
  "raise_for_status r =
     (if 400 \<le> status_code r \<and> status_code r < 600
      then Inl (RequestException (HTTPError (status_code r))) else Inr ())"

text \<open>
  \<^verbatim>\<open>response.json() if response.headers.get('Content-Type') == 'application/json'
  else response.text\<close>
\<close>

definition response_data :: "env \<Rightarrow> response \<Rightarrow> py_exception + pyval" where
  "response_data E r =
     (if content_type r = Some ''application/json''
      then json_loads E (resp_text r)
      else Inr (PStr (resp_text r)))"

text \<open>A returned payload: a plain value (\<^verbatim>\<open>None\<close> is \<open>Plain PNone\<close>) or a model instance.\<close>

datatype 'm py_value = Plain pyval | Instance 'm

text \<open>\<^verbatim>\<open>model.parse_obj(data) if model else data\<close>; a class is always truthy.\<close>

definition validated :: "'m response_model option \<Rightarrow> pyval \<Rightarrow> py_exception + 'm py_value" where
  "validated response_model data =
     (case response_model of
        None \<Rightarrow> Inr (Plain data)
      | Some m \<Rightarrow> (case m data of None \<Rightarrow> Inl ValidationError | Some x \<Rightarrow> Inr (Instance x)))"

text \<open>A finished call: the requests handed to the transport, and the outcome.\<close>

record 'a call =
  sent :: "request list"
  result :: "'a outcome"

record RequestHandler =
  base_url :: string
  headers :: "string \<rightharpoonup> string"
  timeout :: int

definition RequestHandler_init :: "string \<Rightarrow> (string \<rightharpoonup> string) option \<Rightarrow> int \<Rightarrow> RequestHandler" where
  "RequestHandler_init b h t =
     \<lparr>base_url = b, headers = (case h of None \<Rightarrow> Map.empty | Some m \<Rightarrow> m), timeout = t\<rparr>"

text \<open>
  \<^verbatim>\<open>if path_params: endpoint = endpoint.format(**path_params.model_dump())\<close>, the first
  statement of \<^verbatim>\<open>__get__\<close> and \<^verbatim>\<open>__delete__\<close>, before their \<^verbatim>\<open>try\<close>.
\<close>

definition resolve_endpoint :: "string \<Rightarrow> BaseModel option \<Rightarrow> string outcome" where
  "resolve_endpoint endpoint path_params =
     (case path_params of None \<Rightarrow> Returned endpoint | Some p \<Rightarrow> str_format endpoint p)"

definition is_RequestException :: "py_exception \<Rightarrow> bool" where
  "is_RequestException e = (case e of RequestException x \<Rightarrow> True | _ \<Rightarrow> False)"

text \<open>
  \<^verbatim>\<open>__get__\<close>. The \<^verbatim>\<open>try\<close> block is \<open>body\<close>; the two \<^verbatim>\<open>except\<close> clauses turn a
  \<^verbatim>\<open>RequestException\<close> and a \<^verbatim>\<open>ValidationError\<close> into \<^verbatim>\<open>(None, None)\<close>, and an
  exception of any other class leaves the method.
\<close>

definition dunder_get ::
  "env \<Rightarrow> RequestHandler \<Rightarrow> string \<Rightarrow> BaseModel option \<Rightarrow> BaseModel option \<Rightarrow>
   'm response_model option \<Rightarrow> (pyval \<times> 'm py_value) call" where
  "dunder_get E self endpoint path_params query_params response_model =
     (case resolve_endpoint endpoint path_params of
        Raised e \<Rightarrow> \<lparr>sent = [], result = Raised e\<rparr>
      | Unmodelled \<Rightarrow> \<lparr>sent = [], result = Unmodelled\<rparr>
      | Returned ep \<Rightarrow>
          (let req = \<lparr>req_verb = GET, req_url = base_url self @ ''/'' @ ep,
                      req_headers = headers self, req_params = query_params,
                      req_json = None, req_timeout = timeout self\<rparr>;
               body =
                 try_bind (transport E req) (\<lambda>response.
                 try_bind (raise_for_status response) (\<lambda>_.
                 try_bind (response_data E response) (\<lambda>data.
                 try_bind (validated response_model data) (\<lambda>v.
                 Inr (PInt (status_code response), v)))))
           in \<lparr>sent = [req],
               result = (case body of
                           Inr v \<Rightarrow> Returned v
                         | Inl e \<Rightarrow>
                             if is_RequestException e then Returned (PNone, Plain PNone)
                             else if e = ValidationError then Returned (PNone, Plain PNone)
                             else Raised e)\<rparr>))"

text \<open>\<^verbatim>\<open>__post__\<close>: no path parameters, the data object goes out as the JSON body.\<close>

definition dunder_post ::
  "env \<Rightarrow> RequestHandler \<Rightarrow> string \<Rightarrow> BaseModel option \<Rightarrow> 'm response_model option \<Rightarrow>
   'm py_value call" where
  "dunder_post E self endpoint data response_model =
     (let req = \<lparr>req_verb = POST, req_url = base_url self @ ''/'' @ endpoint,
                 req_headers = headers self, req_params = None,
                 req_json = data, req_timeout = timeout self\<rparr>;
          body =
            try_bind (transport E req) (\<lambda>response.
            try_bind (raise_for_status response) (\<lambda>_.
            try_bind (response_data E response) (\<lambda>data'.
            validated response_model data')))
      in \<lparr>sent = [req],
          result = (case body of
                      Inr v \<Rightarrow> Returned v
                    | Inl e \<Rightarrow>
                        if is_RequestException e then Returned (Plain PNone)
                        else if e = ValidationError then Returned (Plain PNone)
                        else Raised e)\<rparr>)"

text \<open>\<^verbatim>\<open>__delete__\<close>: no response model, and only \<^verbatim>\<open>RequestException\<close> is caught.\<close>

definition dunder_delete ::
  "env \<Rightarrow> RequestHandler \<Rightarrow> string \<Rightarrow> BaseModel option \<Rightarrow> BaseModel option \<Rightarrow> pyval call" where
  "dunder_delete E self endpoint path_params query_params =
     (case resolve_endpoint endpoint path_params of
        Raised e \<Rightarrow> \<lparr>sent = [], result = Raised e\<rparr>
      | Unmodelled \<Rightarrow> \<lparr>sent = [], result = Unmodelled\<rparr>
      | Returned ep \<Rightarrow>
          (let req = \<lparr>req_verb = DELETE, req_url = base_url self @ ''/'' @ ep,
                      req_headers = headers self, req_params = query_params,
                      req_json = None, req_timeout = timeout self\<rparr>;
               body =
                 try_bind (transport E req) (\<lambda>response.
                 try_bind (raise_for_status response) (\<lambda>_.
                 response_data E response))
           in \<lparr>sent = [req],
               result = (case body of
                           Inr v \<Rightarrow> Returned v
                         | Inl e \<Rightarrow>
                             if is_RequestException e then Returned PNone else Raised e)\<rparr>))"

text \<open>\<^verbatim>\<open>self.headers.update(headers)\<close> and \<^verbatim>\<open>self.timeout = timeout\<close>.\<close>

definition set_headers :: "(string \<rightharpoonup> string) \<Rightarrow> RequestHandler \<Rightarrow> RequestHandler" where
  "set_headers h self = self\<lparr>headers := headers self ++ h\<rparr>"

definition set_timeout :: "int \<Rightarrow> RequestHandler \<Rightarrow> RequestHandler" where
  "set_timeout t self = self\<lparr>timeout := t\<rparr>"

section \<open>RequestDataBase\<close>

text \<open>
  Modelled from the spec: the module \<^verbatim>\<open>src.feature.request.schemas\<close> is not among the
  sources. The spec gives the path parameter objects as the records
  \<^verbatim>\<open>{seed: string}\<close> and \<^verbatim>\<open>{channel: string, id_post: integer}\<close>.
\<close>

definition DetailBySeed :: "string \<Rightarrow> BaseModel" where
  "DetailBySeed seed = [(''seed'', PStr seed)]"

definition DeletePostByQueue :: "string \<Rightarrow> int \<Rightarrow> BaseModel" where
  "DeletePostByQueue channel id_post = [(''channel'', PStr channel), (''id_post'', PInt id_post)]"

text \<open>
  Modelled from the spec: the three response models of the same missing module, each
  a schema that validates a parsed body or rejects it; they are parameters.
\<close>

record 'm schemas =
  PostSendNewsList :: "'m response_model"
  PostQueueList :: "'m response_model"
  DetailBySeedResponse :: "'m response_model"

definition dunder_get_last_send_news ::
  "'m schemas \<Rightarrow> env \<Rightarrow> RequestHandler \<Rightarrow> (pyval \<times> 'm py_value) call" where
  "dunder_get_last_send_news S E self =
     dunder_get E self ''send-news/get-news/by/hours'' None None (Some (PostSendNewsList S))"

definition dunder_get_last_queue ::
  "'m schemas \<Rightarrow> env \<Rightarrow> RequestHandler \<Rightarrow> (pyval \<times> 'm py_value) call" where
  "dunder_get_last_queue S E self =
     dunder_get E self ''queue/get-news/by/hours'' None None (Some (PostQueueList S))"

definition dunder_get_detail_by_seed ::
  "'m schemas \<Rightarrow> env \<Rightarrow> RequestHandler \<Rightarrow> string \<Rightarrow> (pyval \<times> 'm py_value) call" where
  "dunder_get_detail_by_seed S E self seed =
     dunder_get E self ''all-news/detail-by-seed/{seed}'' (Some (DetailBySeed seed)) None
       (Some (DetailBySeedResponse S))"

text \<open>The subscript \<^verbatim>\<open>[1]\<close> on the pair a call returned.\<close>

definition item1 :: "('a \<times> 'b) call \<Rightarrow> 'b call" where
  "item1 c = \<lparr>sent = sent c, result = outcome_bind (result c) (\<lambda>p. Returned (snd p))\<rparr>"

definition get_detail_by_seed :: "'m schemas \<Rightarrow> env \<Rightarrow> RequestHandler \<Rightarrow> string \<Rightarrow> 'm py_value call" where
  "get_detail_by_seed S E self seed = item1 (dunder_get_detail_by_seed S E self seed)"

definition get_last_news_queue :: "'m schemas \<Rightarrow> env \<Rightarrow> RequestHandler \<Rightarrow> 'm py_value call" where
  "get_last_news_queue S E self = item1 (dunder_get_last_queue S E self)"

definition get_last_news_send :: "'m schemas \<Rightarrow> env \<Rightarrow> RequestHandler \<Rightarrow> 'm py_value call" where
  "get_last_news_send S E self = item1 (dunder_get_last_send_news S E self)"

definition delete_news_by_queue :: "env \<Rightarrow> RequestHandler \<Rightarrow> string \<Rightarrow> int \<Rightarrow> pyval call" where
  "delete_news_by_queue E self channel id_post =
     dunder_delete E self ''queue/delete-news/{channel}/{id_post}''
       (Some (DeletePostByQueue channel id_post)) None"

section \<open>Fixtures and predicates for the statements\<close>

text \<open>\<^verbatim>\<open>RequestHandler()\<close> with the defaults of \<^verbatim>\<open>__init__\<close>.\<close>

definition default_handler :: RequestHandler where
  "default_handler = RequestHandler_init ''http://0.0.0.0:8000/'' None 10"

text \<open>A JSON decoder that knows three documents, and rejects every other text.\<close>

definition mock_json :: "string \<Rightarrow> py_exception + pyval" where
  "mock_json s =
     (if s = ''null'' then Inr PNone
      else if s = ''{}'' then Inr (PDict [])
      else if s = ''{\"seed\": \"seed123\"}'' then Inr (PDict [(''seed'', PStr ''seed123'')])
      else Inl (RequestException JSONDecodeError))"

text \<open>
  A server that answers every request with \<open>r\<close>, and a network that is down. As the
  library does, both refuse a timeout that is not positive with \<^verbatim>\<open>ValueError\<close>.
\<close>

definition mock_server :: "response \<Rightarrow> env" where
  "mock_server r =
     \<lparr>transport = (\<lambda>rq. if req_timeout rq \<le> 0 then Inl ValueError else Inr r),
      json_loads = mock_json\<rparr>"

definition mock_down :: "requests_error \<Rightarrow> env" where
  "mock_down err =
     \<lparr>transport = (\<lambda>rq. if req_timeout rq \<le> 0 then Inl ValueError
                         else Inl (RequestException err)),
      json_loads = mock_json\<rparr>"

text \<open>
  Three answers: a detail record as JSON, the same record declared as JSON with a
  charset parameter, and \<^verbatim>\<open>404 Not Found\<close>.
\<close>

definition detail_response :: response where
  "detail_response =
     \<lparr>status_code = 200, content_type = Some ''application/json'',
      resp_text = ''{\"seed\": \"seed123\"}''\<rparr>"

definition charset_response :: response where
  "charset_response =
     \<lparr>status_code = 200, content_type = Some ''application/json; charset=utf-8'',
      resp_text = ''{\"seed\": \"seed123\"}''\<rparr>"

definition not_found_response :: response where
  "not_found_response = \<lparr>status_code = 404, content_type = None, resp_text = ''Not Found''\<rparr>"

text \<open>A response model with one required string field \<^verbatim>\<open>seed\<close>.\<close>

definition mock_model :: "BaseModel response_model" where
  "mock_model d =
     (case d of
        PDict kvs \<Rightarrow> (case map_of kvs ''seed'' of Some (PStr s) \<Rightarrow> Some kvs | _ \<Rightarrow> None)
      | _ \<Rightarrow> None)"

definition mock_schemas :: "BaseModel schemas" where
  "mock_schemas =
     \<lparr>PostSendNewsList = mock_model, PostQueueList = mock_model, DetailBySeedResponse = mock_model\<rparr>"

text \<open>The request \<open>default_handler\<close> sends for a verb and a resolved endpoint, without parameters.\<close>

definition mock_request :: "verb \<Rightarrow> string \<Rightarrow> request" where
  "mock_request v ep =
     \<lparr>req_verb = v, req_url = ''http://0.0.0.0:8000//'' @ ep, req_headers = Map.empty,
      req_params = None, req_json = None, req_timeout = 10\<rparr>"


text \<open>
  The call behind a request fails: the transport raises, the status is one on which
  \<open>raise_for_status\<close> raises, the body declared as JSON does not decode, or the response
  model rejects the data.
\<close>

definition call_fails :: "env \<Rightarrow> request \<Rightarrow> 'm response_model option \<Rightarrow> bool" where
  "call_fails E rq rm =
     (case transport E rq of
        Inl err \<Rightarrow> True
      | Inr r \<Rightarrow>
          (400 \<le> status_code r \<and> status_code r < 600) \<or>
          (case response_data E r of
             Inl e \<Rightarrow> True
           | Inr d \<Rightarrow> (case rm of None \<Rightarrow> False | Some m \<Rightarrow> m d = None)))"

text \<open>
  The exception, if any, that the statements of a \<^verbatim>\<open>try\<close> block raise for a request:
  the transport call, \<open>raise_for_status\<close>, the reading of the body and, with a response
  model, its validation, in this order.
\<close>

definition call_exception :: "env \<Rightarrow> request \<Rightarrow> 'm response_model option \<Rightarrow> py_exception option" where
  "call_exception E rq rm =
     (case transport E rq of
        Inl e \<Rightarrow> Some e
      | Inr r \<Rightarrow>
          (case raise_for_status r of
             Inl e \<Rightarrow> Some e
           | Inr u \<Rightarrow>
               (case response_data E r of
                  Inl e \<Rightarrow> Some e
                | Inr d \<Rightarrow> (case validated rm d of Inl e \<Rightarrow> Some e | Inr v \<Rightarrow> None))))"

text \<open>The same for \<^verbatim>\<open>__delete__\<close>, whose block validates nothing.\<close>

definition delete_exception :: "env \<Rightarrow> request \<Rightarrow> py_exception option" where
  "delete_exception E rq =
     (case transport E rq of
        Inl e \<Rightarrow> Some e
      | Inr r \<Rightarrow>
          (case raise_for_status r of
             Inl e \<Rightarrow> Some e
           | Inr u \<Rightarrow> (case response_data E r of Inl e \<Rightarrow> Some e | Inr d \<Rightarrow> None)))"

text \<open>Template text without a brace, and a field name that \<open>render_field\<close> looks up.\<close>

definition literal_text :: "string \<Rightarrow> bool" where
  "literal_text t = (CHR ''{'' \<notin> set t \<and> CHR ''}'' \<notin> set t)"

definition plain_name :: "string \<Rightarrow> bool" where
  "plain_name f =
     (\<not> list_ex (\<lambda>c. c \<in> set ''{!:.['') f \<and> \<not> list_all is_digit f \<and> CHR ''}'' \<notin> set f)"

section \<open>Lemmas about the model\<close>

lemma split_field_append:
  "CHR ''}'' \<notin> set f \<Longrightarrow> split_field (f @ CHR ''}'' # post) = Some (f, post)"
  by (induction f) auto

lemma str_format_literal:
  "literal_text pre \<Longrightarrow>
   str_format (pre @ t) kw = outcome_bind (str_format t kw) (\<lambda>s. Returned (pre @ s))"
proof (induction pre)
  case Nil
  show ?case by (cases "str_format t kw") simp_all
next
  case (Cons c pre)
  then have "literal_text pre" and "c \<noteq> CHR ''{''" and "c \<noteq> CHR ''}''"
    by (auto simp: literal_text_def)
  with Cons.IH show ?case
    by (cases "str_format t kw") simp_all
qed

lemma str_format_missing_field:
  assumes "plain_name f" and "map_of kw f = None"
  shows "str_format (CHR ''{'' # f @ CHR ''}'' # post) kw = Raised (KeyError f)"
proof -
  from assms(1) obtain d ds where f: "f = d # ds"
    by (cases f) (auto simp: plain_name_def)
  with assms(1) have d: "d \<noteq> CHR ''{''"
    by (auto simp: plain_name_def)
  have sp: "split_field (d # ds @ CHR ''}'' # post) = Some (f, post)"
    using split_field_append [of f post] assms(1) f by (simp add: plain_name_def)
  have rf: "render_field f kw = Raised (KeyError f)"
    using assms by (simp add: render_field_def plain_name_def)
  show ?thesis
    using d sp rf by (simp add: f)
qed

lemma format_detail_by_seed:
  "str_format ''all-news/detail-by-seed/{seed}'' (DetailBySeed seed) =
     Returned (''all-news/detail-by-seed/'' @ seed)"
  by (simp add: DetailBySeed_def render_field_def is_digit_def)

lemma format_delete_news:
  "str_format ''queue/delete-news/{channel}/{id_post}'' (DeletePostByQueue channel id_post) =
     Returned (''queue/delete-news/'' @ channel @ ''/'' @ str_int id_post)"
  by (simp add: DeletePostByQueue_def render_field_def is_digit_def)

lemma sent_get_cases:
  "sent (dunder_get E self endpoint pp qp rm) = [rq] \<Longrightarrow>
   \<exists>ep. resolve_endpoint endpoint pp = Returned ep \<and>
     rq = \<lparr>req_verb = GET, req_url = base_url self @ ''/'' @ ep, req_headers = headers self,
           req_params = qp, req_json = None, req_timeout = timeout self\<rparr>"
  by (auto simp: dunder_get_def Let_def split: outcome.splits)

lemma sent_delete_cases:
  "sent (dunder_delete E self endpoint pp qp) = [rq] \<Longrightarrow>
   \<exists>ep. resolve_endpoint endpoint pp = Returned ep \<and>
     rq = \<lparr>req_verb = DELETE, req_url = base_url self @ ''/'' @ ep, req_headers = headers self,
           req_params = qp, req_json = None, req_timeout = timeout self\<rparr>"
  by (auto simp: dunder_delete_def Let_def split: outcome.splits)

lemma sent_post:
  "sent (dunder_post E self endpoint data rm) =
     [\<lparr>req_verb = POST, req_url = base_url self @ ''/'' @ endpoint, req_headers = headers self,
       req_params = None, req_json = data, req_timeout = timeout self\<rparr>]"
  by (simp add: dunder_post_def Let_def)

lemma sent_get_resolved:
  "resolve_endpoint endpoint pp = Returned ep \<Longrightarrow>
   sent (dunder_get E self endpoint pp qp rm) =
     [\<lparr>req_verb = GET, req_url = base_url self @ ''/'' @ ep, req_headers = headers self,
       req_params = qp, req_json = None, req_timeout = timeout self\<rparr>]"
  by (simp add: dunder_get_def Let_def)

lemma sent_delete_resolved:
  "resolve_endpoint endpoint pp = Returned ep \<Longrightarrow>
   sent (dunder_delete E self endpoint pp qp) =
     [\<lparr>req_verb = DELETE, req_url = base_url self @ ''/'' @ ep, req_headers = headers self,
       req_params = qp, req_json = None, req_timeout = timeout self\<rparr>]"
  by (simp add: dunder_delete_def Let_def)

lemma get_resolution_raises:
  "resolve_endpoint endpoint pp = Raised e \<Longrightarrow>
   dunder_get E self endpoint pp qp rm = \<lparr>sent = [], result = Raised e\<rparr>"
  by (simp add: dunder_get_def)

lemma delete_resolution_raises:
  "resolve_endpoint endpoint pp = Raised e \<Longrightarrow>
   dunder_delete E self endpoint pp qp = \<lparr>sent = [], result = Raised e\<rparr>"
  by (simp add: dunder_delete_def)

text \<open>The result of each verb, by what the statements of its \<^verbatim>\<open>try\<close> block do.\<close>

lemma get_result_cases:
  assumes "sent (dunder_get E self endpoint pp qp rm) = [rq]"
  shows "result (dunder_get E self endpoint pp qp rm) =
     (case transport E rq of
        Inl e \<Rightarrow>
          if is_RequestException e \<or> e = ValidationError then Returned (PNone, Plain PNone)
          else Raised e
      | Inr r \<Rightarrow>
          if 400 \<le> status_code r \<and> status_code r < 600 then Returned (PNone, Plain PNone)
          else (case response_data E r of
                  Inl e \<Rightarrow>
                    if is_RequestException e \<or> e = ValidationError
                    then Returned (PNone, Plain PNone) else Raised e
                | Inr d \<Rightarrow>
                    (case validated rm d of
                       Inl e \<Rightarrow> Returned (PNone, Plain PNone)
                     | Inr v \<Rightarrow> Returned (PInt (status_code r), v))))"
proof -
  from assms obtain ep where "resolve_endpoint endpoint pp = Returned ep"
    and "rq = \<lparr>req_verb = GET, req_url = base_url self @ ''/'' @ ep, req_headers = headers self,
           req_params = qp, req_json = None, req_timeout = timeout self\<rparr>"
    using sent_get_cases by blast
  then show ?thesis
    by (auto simp: dunder_get_def Let_def raise_for_status_def validated_def
        is_RequestException_def split: sum.splits option.splits)
qed

lemma post_result_cases:
  assumes "sent (dunder_post E self endpoint data rm) = [rq]"
  shows "result (dunder_post E self endpoint data rm) =
     (case transport E rq of
        Inl e \<Rightarrow>
          if is_RequestException e \<or> e = ValidationError then Returned (Plain PNone)
          else Raised e
      | Inr r \<Rightarrow>
          if 400 \<le> status_code r \<and> status_code r < 600 then Returned (Plain PNone)
          else (case response_data E r of
                  Inl e \<Rightarrow>
                    if is_RequestException e \<or> e = ValidationError
                    then Returned (Plain PNone) else Raised e
                | Inr d \<Rightarrow>
                    (case validated rm d of
                       Inl e \<Rightarrow> Returned (Plain PNone)
                     | Inr v \<Rightarrow> Returned v)))"
proof -
  from assms have "rq = \<lparr>req_verb = POST, req_url = base_url self @ ''/'' @ endpoint,
       req_headers = headers self, req_params = None, req_json = data, req_timeout = timeout self\<rparr>"
    by (simp add: sent_post)
  then show ?thesis
    by (auto simp: dunder_post_def Let_def raise_for_status_def validated_def
        is_RequestException_def split: sum.splits option.splits)
qed

lemma delete_result_cases:
  assumes "sent (dunder_delete E self endpoint pp qp) = [rq]"
  shows "result (dunder_delete E self endpoint pp qp) =
     (case transport E rq of
        Inl e \<Rightarrow> if is_RequestException e then Returned PNone else Raised e
      | Inr r \<Rightarrow>
          if 400 \<le> status_code r \<and> status_code r < 600 then Returned PNone
          else (case response_data E r of
                  Inl e \<Rightarrow> if is_RequestException e then Returned PNone else Raised e
                | Inr d \<Rightarrow> Returned d))"
proof -
  from assms obtain ep where "resolve_endpoint endpoint pp = Returned ep"
    and "rq = \<lparr>req_verb = DELETE, req_url = base_url self @ ''/'' @ ep, req_headers = headers self,
           req_params = qp, req_json = None, req_timeout = timeout self\<rparr>"
    using sent_delete_cases by blast
  then show ?thesis
    by (auto simp: dunder_delete_def Let_def raise_for_status_def
        is_RequestException_def split: sum.splits option.splits)
qed

lemma validated_raises: "validated rm d = Inl e \<Longrightarrow> e = ValidationError"
  by (auto simp: validated_def split: option.splits)

lemma get_result_exception:
  assumes "sent (dunder_get E self endpoint pp qp rm) = [rq]"
    and "call_exception E rq rm = Some e"
  shows "result (dunder_get E self endpoint pp qp rm) =
     (if is_RequestException e \<or> e = ValidationError then Returned (PNone, Plain PNone)
      else Raised e)"
  using assms(2) validated_raises unfolding get_result_cases [OF assms(1)] call_exception_def
  by (fastforce simp: raise_for_status_def is_RequestException_def split: sum.splits if_splits)

lemma post_result_exception:
  assumes "sent (dunder_post E self endpoint data rm) = [rq]"
    and "call_exception E rq rm = Some e"
  shows "result (dunder_post E self endpoint data rm) =
     (if is_RequestException e \<or> e = ValidationError then Returned (Plain PNone)
      else Raised e)"
  using assms(2) validated_raises unfolding post_result_cases [OF assms(1)] call_exception_def
  by (fastforce simp: raise_for_status_def is_RequestException_def split: sum.splits if_splits)

lemma delete_result_exception:
  assumes "sent (dunder_delete E self endpoint pp qp) = [rq]"
    and "delete_exception E rq = Some e"
  shows "result (dunder_delete E self endpoint pp qp) =
     (if is_RequestException e then Returned PNone else Raised e)"
  using assms(2) unfolding delete_result_cases [OF assms(1)] delete_exception_def
  by (auto simp: raise_for_status_def is_RequestException_def split: sum.splits if_splits)

lemma call_exception_None:
  "call_exception E rq rm = None \<longleftrightarrow>
     (\<exists>r d v. transport E rq = Inr r \<and> \<not> (400 \<le> status_code r \<and> status_code r < 600) \<and>
        response_data E r = Inr d \<and> validated rm d = Inr v)"
  by (auto simp: call_exception_def raise_for_status_def split: sum.splits if_splits)

lemma call_fails_iff: "call_fails E rq rm \<longleftrightarrow> call_exception E rq rm \<noteq> None"
  by (auto simp: call_fails_def call_exception_def raise_for_status_def validated_def
      split: sum.splits option.splits if_splits)

lemma get_outcome_cases:
  assumes "resolve_endpoint endpoint pp = Returned ep"
  shows "(\<exists>s v. result (dunder_get E self endpoint pp qp rm) = Returned (s, v) \<and>
            (s = PNone \<longrightarrow> v = Plain PNone)) \<or>
         (\<exists>e. result (dunder_get E self endpoint pp qp rm) = Raised e \<and>
            \<not> is_RequestException e \<and> e \<noteq> ValidationError)"
  unfolding get_result_cases [OF sent_get_resolved [OF assms]]
  by (auto split: sum.splits)




lemmas mock_defs =
  default_handler_def RequestHandler_init_def mock_server_def mock_down_def mock_request_def
  mock_json_def mock_model_def mock_schemas_def detail_response_def charset_response_def
  not_found_response_def set_timeout_def

lemmas verb_defs =
  dunder_get_def dunder_post_def dunder_delete_def resolve_endpoint_def raise_for_status_def
  response_data_def validated_def is_RequestException_def Let_def

section \<open>Failures of the transport\<close>




section \<open>Exceptions that leave the methods\<close>

text \<open>
  Claim C2, amended. In \<^verbatim>\<open>__get__\<close> and \<^verbatim>\<open>__delete__\<close> the template is substituted before
  the \<^verbatim>\<open>try\<close> block. An exception of the substitution is raised to the caller and no
  request is sent; a placeholder with no matching field on the path-parameter object
  raises \<^verbatim>\<open>KeyError\<close>. Without a path-parameter object the endpoint is used as it
  is. Of the exceptions raised inside the \<^verbatim>\<open>try\<close> block, a \<^verbatim>\<open>RequestException\<close> and,
  in \<^verbatim>\<open>__get__\<close>, a \<^verbatim>\<open>ValidationError\<close> give the null sentinel, and an exception of any
  other class is raised to the caller.
\<close>

theorem template_errors_escape:
  "(resolve_endpoint endpoint pp = Raised e \<longrightarrow>
      dunder_get E self endpoint pp qp rm = \<lparr>sent = [], result = Raised e\<rparr> \<and>
      dunder_delete E self endpoint pp qp = \<lparr>sent = [], result = Raised e\<rparr>) \<and>
   (literal_text pre \<and> plain_name f \<and> map_of p f = None \<longrightarrow>
      resolve_endpoint (pre @ ''{'' @ f @ ''}'' @ post) (Some p) = Raised (KeyError f)) \<and>
   resolve_endpoint endpoint None = Returned endpoint \<and>
   (sent (dunder_get E self endpoint pp qp rm) = [rq] \<and> call_exception E rq rm = Some x \<longrightarrow>
      result (dunder_get E self endpoint pp qp rm) =
        (if is_RequestException x \<or> x = ValidationError then Returned (PNone, Plain PNone)
         else Raised x)) \<and>
   (sent (dunder_delete E self endpoint pp qp) = [rq'] \<and> delete_exception E rq' = Some x' \<longrightarrow>
      result (dunder_delete E self endpoint pp qp) =
        (if is_RequestException x' then Returned PNone else Raised x'))"
proof (intro conjI impI)
  assume "resolve_endpoint endpoint pp = Raised e"
  then show "dunder_get E self endpoint pp qp rm = \<lparr>sent = [], result = Raised e\<rparr>"
    and "dunder_delete E self endpoint pp qp = \<lparr>sent = [], result = Raised e\<rparr>"
    by (rule get_resolution_raises, rule delete_resolution_raises)
next
  assume "literal_text pre \<and> plain_name f \<and> map_of p f = None"
  then show "resolve_endpoint (pre @ ''{'' @ f @ ''}'' @ post) (Some p) = Raised (KeyError f)"
    using str_format_literal [of pre "CHR ''{'' # f @ CHR ''}'' # post" p]
      str_format_missing_field [of f p post]
    by (simp add: resolve_endpoint_def)
next
  show "resolve_endpoint endpoint None = Returned endpoint"
    by (simp add: resolve_endpoint_def)
next
  assume "sent (dunder_get E self endpoint pp qp rm) = [rq] \<and> call_exception E rq rm = Some x"
  then show "result (dunder_get E self endpoint pp qp rm) =
        (if is_RequestException x \<or> x = ValidationError then Returned (PNone, Plain PNone)
         else Raised x)"
    using get_result_exception by blast
next
  assume "sent (dunder_delete E self endpoint pp qp) = [rq'] \<and> delete_exception E rq' = Some x'"
  then show "result (dunder_delete E self endpoint pp qp) =
        (if is_RequestException x' then Returned PNone else Raised x')"
    using delete_result_exception by blast
qed

theorem template_errors_escape_witness:
  "resolve_endpoint ''queue/delete-news/{channel}/{id}'' (Some (DeletePostByQueue ''ch'' 7))
     = Raised (KeyError ''id'') \<and>
   dunder_get (mock_down ConnectionError) default_handler ''queue/delete-news/{channel}/{id}''
       (Some (DeletePostByQueue ''ch'' 7)) None (Some mock_model)
     = \<lparr>sent = [], result = Raised (KeyError ''id'')\<rparr> \<and>
   dunder_delete (mock_down ConnectionError) default_handler ''queue/delete-news/{channel}/{id}''
       (Some (DeletePostByQueue ''ch'' 7)) None
     = \<lparr>sent = [], result = Raised (KeyError ''id'')\<rparr> \<and>
   literal_text ''detail/'' \<and> plain_name ''key'' \<and> map_of (DetailBySeed ''s'') ''key'' = None \<and>
   resolve_endpoint (''detail/'' @ ''{'' @ ''key'' @ ''}'' @ ''/x'') (Some (DetailBySeed ''s''))
     = Raised (KeyError ''key'') \<and>
   sent (dunder_get (mock_down ConnectionError) default_handler
       ''all-news/detail-by-seed/{seed}'' (Some (DetailBySeed ''s'')) None (Some mock_model))
     = [mock_request GET ''all-news/detail-by-seed/s''] \<and>
   call_exception (mock_down ConnectionError) (mock_request GET ''all-news/detail-by-seed/s'')
       (Some mock_model)
     = Some (RequestException ConnectionError) \<and>
   result (dunder_get (mock_down ConnectionError) default_handler
       ''all-news/detail-by-seed/{seed}'' (Some (DetailBySeed ''s'')) None (Some mock_model))
     = Returned (PNone, Plain PNone) \<and>
   sent (dunder_delete (mock_down ConnectionError) (set_timeout 0 default_handler)
       ''all-news/detail-by-seed/{seed}'' (Some (DetailBySeed ''s'')) None)
     = [(mock_request DELETE ''all-news/detail-by-seed/s'')\<lparr>req_timeout := 0\<rparr>] \<and>
   delete_exception (mock_down ConnectionError)
       ((mock_request DELETE ''all-news/detail-by-seed/s'')\<lparr>req_timeout := 0\<rparr>)
     = Some ValueError \<and>
   result (dunder_delete (mock_down ConnectionError) (set_timeout 0 default_handler)
       ''all-news/detail-by-seed/{seed}'' (Some (DetailBySeed ''s'')) None)
     = Raised ValueError"
  using
    template_errors_escape [of "''queue/delete-news/{channel}/{id}''"
      "Some (DeletePostByQueue ''ch'' 7)" "KeyError ''id''" "mock_down ConnectionError"
      default_handler None "Some mock_model" "''detail/''" "''key''" "DetailBySeed ''s''" "''/x''"]
    template_errors_escape [of "''all-news/detail-by-seed/{seed}''"
      "Some (DetailBySeed ''s'')" "KeyError ''id''" "mock_down ConnectionError"
      default_handler None "Some mock_model" "''detail/''" "''key''" "DetailBySeed ''s''" "''/x''"
      "mock_request GET ''all-news/detail-by-seed/s''" "RequestException ConnectionError"]
    template_errors_escape [of "''all-news/detail-by-seed/{seed}''"
      "Some (DetailBySeed ''s'')" "KeyError ''id''" "mock_down ConnectionError"
      "set_timeout 0 default_handler" None "Some mock_model" "''detail/''" "''key''"
      "DetailBySeed ''s''" "''/x''"
      "mock_request GET ''all-news/detail-by-seed/s''" "RequestException ConnectionError"
      "(mock_request DELETE ''all-news/detail-by-seed/s'')\<lparr>req_timeout := 0\<rparr>" ValueError]
  by (simp add: mock_defs verb_defs DetailBySeed_def DeletePostByQueue_def render_field_def
      is_digit_def literal_text_def plain_name_def call_exception_def delete_exception_def)

text \<open>
  The template \<^verbatim>\<open>all-news/detail-by-seed/{id}\<close> with the parameter object
  \<^verbatim>\<open>DetailBySeed(seed='seed123')\<close>: both methods raise \<^verbatim>\<open>KeyError('id')\<close>.
\<close>

theorem missing_placeholder_counterexample:
  "result (dunder_get (mock_server \<lparr>status_code = 200, content_type = None, resp_text = ''''\<rparr>)
            default_handler ''all-news/detail-by-seed/{id}'' (Some (DetailBySeed ''seed123''))
            None (Some mock_model))
     = Raised (KeyError ''id'') \<and>
   result (dunder_delete (mock_server \<lparr>status_code = 200, content_type = None, resp_text = ''''\<rparr>)
            default_handler ''all-news/detail-by-seed/{id}'' (Some (DetailBySeed ''seed123'')) None)
     = Raised (KeyError ''id'')"
  by (simp add: dunder_get_def dunder_delete_def resolve_endpoint_def DetailBySeed_def
      render_field_def is_digit_def)

section \<open>Responses that fail validation\<close>

text \<open>
  Claim C3. In \<^verbatim>\<open>__get__\<close> and \<^verbatim>\<open>__post__\<close> with a response model: when the transport
  answers with a status from 200 to 299 and the model rejects the parsed body, the method
  returns the whole null sentinel, \<^verbatim>\<open>(None, None)\<close> for get and \<^verbatim>\<open>None\<close> for post.
\<close>

theorem invalid_body_gives_null_sentinel:
  "(sent (dunder_get E self endpoint pp qp (Some m)) = [rq] \<and> transport E rq = Inr r \<and>
    200 \<le> status_code r \<and> status_code r < 300 \<and> response_data E r = Inr d \<and> m d = None \<longrightarrow>
      result (dunder_get E self endpoint pp qp (Some m)) = Returned (PNone, Plain PNone)) \<and>
   (sent (dunder_post E self endpoint data (Some m)) = [rq'] \<and> transport E rq' = Inr r' \<and>
    200 \<le> status_code r' \<and> status_code r' < 300 \<and> response_data E r' = Inr d' \<and> m d' = None \<longrightarrow>
      result (dunder_post E self endpoint data (Some m)) = Returned (Plain PNone))"
proof (intro conjI impI)
  assume a: "sent (dunder_get E self endpoint pp qp (Some m)) = [rq] \<and> transport E rq = Inr r \<and>
    200 \<le> status_code r \<and> status_code r < 300 \<and> response_data E r = Inr d \<and> m d = None"
  then obtain ep where "resolve_endpoint endpoint pp = Returned ep"
    and "rq = \<lparr>req_verb = GET, req_url = base_url self @ ''/'' @ ep, req_headers = headers self,
           req_params = qp, req_json = None, req_timeout = timeout self\<rparr>"
    using sent_get_cases by blast
  with a show "result (dunder_get E self endpoint pp qp (Some m)) = Returned (PNone, Plain PNone)"
    by (simp add: dunder_get_def Let_def raise_for_status_def validated_def is_RequestException_def)
next
  assume a: "sent (dunder_post E self endpoint data (Some m)) = [rq'] \<and> transport E rq' = Inr r' \<and>
    200 \<le> status_code r' \<and> status_code r' < 300 \<and> response_data E r' = Inr d' \<and> m d' = None"
  then have "rq' = \<lparr>req_verb = POST, req_url = base_url self @ ''/'' @ endpoint,
       req_headers = headers self, req_params = None, req_json = data, req_timeout = timeout self\<rparr>"
    by (simp add: sent_post)
  with a show "result (dunder_post E self endpoint data (Some m)) = Returned (Plain PNone)"
    by (simp add: dunder_post_def Let_def raise_for_status_def validated_def is_RequestException_def)
qed

theorem invalid_body_gives_null_sentinel_witness:
  "sent (dunder_get (mock_server \<lparr>status_code = 200, content_type = Some ''application/json'', resp_text = ''{}''\<rparr>)
          default_handler ''queue/get-news/by/hours'' None None (Some mock_model))
     = [mock_request GET ''queue/get-news/by/hours''] \<and>
   transport (mock_server \<lparr>status_code = 200, content_type = Some ''application/json'', resp_text = ''{}''\<rparr>)
       (mock_request GET ''queue/get-news/by/hours'')
     = Inr \<lparr>status_code = 200, content_type = Some ''application/json'', resp_text = ''{}''\<rparr> \<and>
   response_data (mock_server \<lparr>status_code = 200, content_type = Some ''application/json'', resp_text = ''{}''\<rparr>)
       \<lparr>status_code = 200, content_type = Some ''application/json'', resp_text = ''{}''\<rparr>
     = Inr (PDict []) \<and>
   mock_model (PDict []) = None \<and>
   result (dunder_get (mock_server \<lparr>status_code = 200, content_type = Some ''application/json'', resp_text = ''{}''\<rparr>)
          default_handler ''queue/get-news/by/hours'' None None (Some mock_model))
     = Returned (PNone, Plain PNone) \<and>
   sent (dunder_post (mock_server \<lparr>status_code = 200, content_type = Some ''application/json'', resp_text = ''{}''\<rparr>)
          default_handler ''queue/get-news/by/hours'' None (Some mock_model))
     = [mock_request POST ''queue/get-news/by/hours''] \<and>
   result (dunder_post (mock_server \<lparr>status_code = 200, content_type = Some ''application/json'', resp_text = ''{}''\<rparr>)
          default_handler ''queue/get-news/by/hours'' None (Some mock_model))
     = Returned (Plain PNone)"
  using invalid_body_gives_null_sentinel [of
      "mock_server \<lparr>status_code = 200, content_type = Some ''application/json'', resp_text = ''{}''\<rparr>"
      default_handler "''queue/get-news/by/hours''" None None mock_model
      "mock_request GET ''queue/get-news/by/hours''"
      "\<lparr>status_code = 200, content_type = Some ''application/json'', resp_text = ''{}''\<rparr>"
      "PDict []" None "mock_request POST ''queue/get-news/by/hours''"
      "\<lparr>status_code = 200, content_type = Some ''application/json'', resp_text = ''{}''\<rparr>"
      "PDict []"]
  by (simp add: mock_defs dunder_get_def dunder_post_def resolve_endpoint_def response_data_def Let_def)

section \<open>The body of a successful response\<close>

text \<open>
  Claim C4. A successful response that declares a JSON content type is to be parsed as
  JSON before any validation. The code compares the \<^verbatim>\<open>Content-Type\<close> header with the
  exact string \<^verbatim>\<open>application/json\<close>, so it misses a JSON answer whose header carries a
  parameter. For the answer \<^verbatim>\<open>200\<close> with \<^verbatim>\<open>application/json; charset=utf-8\<close> and a
  body that is a valid detail record, \<^verbatim>\<open>get_detail_by_seed\<close> returns \<^verbatim>\<open>None\<close> and
  \<^verbatim>\<open>__get__\<close> returns \<^verbatim>\<open>(None, None)\<close>, or the undecoded text when no response model is
  given; the same body under the header \<^verbatim>\<open>application/json\<close> gives the record.
\<close>

theorem json_with_charset_not_decoded:
  "content_type charset_response = Some ''application/json; charset=utf-8'' \<and>
   json_loads (mock_server charset_response) (resp_text charset_response)
     = Inr (PDict [(''seed'', PStr ''seed123'')]) \<and>
   mock_model (PDict [(''seed'', PStr ''seed123'')]) = Some [(''seed'', PStr ''seed123'')] \<and>
   result (get_detail_by_seed mock_schemas (mock_server charset_response) default_handler ''seed123'')
     = Returned (Plain PNone) \<and>
   result (dunder_get (mock_server charset_response) default_handler
            ''all-news/detail-by-seed/{seed}'' (Some (DetailBySeed ''seed123'')) None
            (Some mock_model))
     = Returned (PNone, Plain PNone) \<and>
   result (dunder_get (mock_server charset_response) default_handler
            ''all-news/detail-by-seed/{seed}'' (Some (DetailBySeed ''seed123'')) None
            (None :: BaseModel response_model option))
     = Returned (PInt 200, Plain (PStr ''{\"seed\": \"seed123\"}'')) \<and>
   result (dunder_get (mock_server detail_response) default_handler
            ''all-news/detail-by-seed/{seed}'' (Some (DetailBySeed ''seed123'')) None
            (Some mock_model))
     = Returned (PInt 200, Instance [(''seed'', PStr ''seed123'')])"
  by (simp add: mock_defs verb_defs get_detail_by_seed_def dunder_get_detail_by_seed_def item1_def
      DetailBySeed_def render_field_def is_digit_def)

text \<open>
  What the three verbs do with a response of status 200 to 299: the body is decoded
  when the header is exactly \<^verbatim>\<open>application/json\<close> and is the raw text otherwise, and
  a response model that rejects the data gives the null sentinel.
\<close>

lemma body_parsed_by_content_type:
  assumes "transport E rq = Inr r" and "200 \<le> status_code r" and "status_code r < 300"
    and "content_type r = Some ''application/json'' \<longrightarrow> json_loads E (resp_text r) = Inr j"
    and "d = (if content_type r = Some ''application/json'' then j else PStr (resp_text r))"
  shows
    "(sent (dunder_get E self endpoint pp qp rm) = [rq] \<longrightarrow>
        result (dunder_get E self endpoint pp qp rm) =
          (case rm of
             None \<Rightarrow> Returned (PInt (status_code r), Plain d)
           | Some m \<Rightarrow>
               (case m d of
                  None \<Rightarrow> Returned (PNone, Plain PNone)
                | Some x \<Rightarrow> Returned (PInt (status_code r), Instance x)))) \<and>
     (sent (dunder_post E self endpoint data rm) = [rq] \<longrightarrow>
        result (dunder_post E self endpoint data rm) =
          (case rm of
             None \<Rightarrow> Returned (Plain d)
           | Some m \<Rightarrow>
               (case m d of None \<Rightarrow> Returned (Plain PNone) | Some x \<Rightarrow> Returned (Instance x)))) \<and>
     (sent (dunder_delete E self endpoint pp qp) = [rq] \<longrightarrow>
        result (dunder_delete E self endpoint pp qp) = Returned d)"
proof -
  have rd: "response_data E r = Inr d"
    using assms(4,5) by (simp add: response_data_def)
  have st: "\<not> (400 \<le> status_code r \<and> status_code r < 600)"
    using assms(2,3) by simp
  show ?thesis
    using assms(1) rd st
    by (auto simp: get_result_cases post_result_cases delete_result_cases validated_def
        split: option.splits)
qed

section \<open>The requests of the resource methods\<close>

text \<open>
  Claim C5. For every seed string, \<^verbatim>\<open>get_detail_by_seed(seed)\<close>, through
  \<^verbatim>\<open>__get_detail_by_seed__\<close>, hands exactly one request to the transport: a GET whose
  endpoint is \<^verbatim>\<open>all-news/detail-by-seed/<seed>\<close> under the base URL, with no query
  parameters and no body.
\<close>

theorem detail_by_seed_request:
  "sent (get_detail_by_seed S E self seed) =
     [\<lparr>req_verb = GET, req_url = base_url self @ ''/'' @ ''all-news/detail-by-seed/'' @ seed,
       req_headers = headers self, req_params = None, req_json = None,
       req_timeout = timeout self\<rparr>] \<and>
   sent (dunder_get_detail_by_seed S E self seed) = sent (get_detail_by_seed S E self seed)"
  by (simp add: get_detail_by_seed_def item1_def dunder_get_detail_by_seed_def dunder_get_def
      resolve_endpoint_def format_detail_by_seed Let_def del: str_format.simps)

theorem detail_by_seed_request_witness:
  "sent (get_detail_by_seed mock_schemas (mock_down Timeout) default_handler ''seed123'') =
     [mock_request GET ''all-news/detail-by-seed/seed123'']"
  using detail_by_seed_request [of mock_schemas "mock_down Timeout" default_handler "''seed123''"]
  by (simp add: mock_defs)

text \<open>
  Claim C6. For every channel and every \<^verbatim>\<open>id_post\<close>, \<^verbatim>\<open>delete_news_by_queue\<close> hands
  exactly one request to the transport: a DELETE whose endpoint is
  \<^verbatim>\<open>queue/delete-news/<channel>/<id_post>\<close> under the base URL, the integer in decimal.
\<close>

theorem delete_news_by_queue_request:
  "sent (delete_news_by_queue E self channel id_post) =
     [\<lparr>req_verb = DELETE,
       req_url = base_url self @ ''/'' @ ''queue/delete-news/'' @ channel @ ''/'' @ str_int id_post,
       req_headers = headers self, req_params = None, req_json = None,
       req_timeout = timeout self\<rparr>]"
  by (simp add: delete_news_by_queue_def dunder_delete_def resolve_endpoint_def
      format_delete_news Let_def del: str_format.simps)

theorem delete_news_by_queue_request_witness:
  "sent (delete_news_by_queue (mock_down Timeout) default_handler ''channel_1'' 1305) =
     [mock_request DELETE ''queue/delete-news/channel_1/1305'']"
  using delete_news_by_queue_request [of "mock_down Timeout" default_handler "''channel_1''" 1305]
  by (simp add: mock_defs str_int_def str_nat.simps digit_char_def)

section \<open>Headers\<close>

text \<open>
  Claim C7. For every mapping \<open>h\<close> and every handler state, \<^verbatim>\<open>set_headers(h)\<close> merges
  \<open>h\<close> into the headers: a key of \<open>h\<close> takes the value \<open>h\<close> gives it, every other key
  keeps its value, and no key is removed. The base URL and the timeout stay as they
  were, and every request a verb method then hands to the transport carries the merged
  headers.
\<close>

theorem set_headers_merges:
  "headers (set_headers h self) = headers self ++ h \<and>
   (\<forall>k v. h k = Some v \<longrightarrow> headers (set_headers h self) k = Some v) \<and>
   (\<forall>k. h k = None \<longrightarrow> headers (set_headers h self) k = headers self k) \<and>
   dom (headers (set_headers h self)) = dom (headers self) \<union> dom h \<and>
   base_url (set_headers h self) = base_url self \<and>
   timeout (set_headers h self) = timeout self \<and>
   (\<forall>rq \<in> set (sent (dunder_get E (set_headers h self) endpoint pp qp rm)).
      req_headers rq = headers self ++ h) \<and>
   map req_headers (sent (dunder_post E (set_headers h self) endpoint data rm')) = [headers self ++ h] \<and>
   (\<forall>rq \<in> set (sent (dunder_delete E (set_headers h self) endpoint pp qp)).
      req_headers rq = headers self ++ h)"
proof (intro conjI allI impI ballI)
  show "headers (set_headers h self) = headers self ++ h"
    by (simp add: set_headers_def)
  show "headers (set_headers h self) k = Some v" if "h k = Some v" for k v
    using that by (simp add: set_headers_def)
  show "headers (set_headers h self) k = headers self k" if "h k = None" for k
    using that by (simp add: set_headers_def map_add_def)
  show "dom (headers (set_headers h self)) = dom (headers self) \<union> dom h"
    by (auto simp: set_headers_def)
  show "base_url (set_headers h self) = base_url self"
    by (simp add: set_headers_def)
  show "timeout (set_headers h self) = timeout self"
    by (simp add: set_headers_def)
  show "req_headers rq = headers self ++ h"
    if "rq \<in> set (sent (dunder_get E (set_headers h self) endpoint pp qp rm))" for rq
    using that
    by (cases "resolve_endpoint endpoint pp") (simp_all add: dunder_get_def Let_def set_headers_def)
  show "map req_headers (sent (dunder_post E (set_headers h self) endpoint data rm')) = [headers self ++ h]"
    by (simp add: sent_post set_headers_def)
  show "req_headers rq = headers self ++ h"
    if "rq \<in> set (sent (dunder_delete E (set_headers h self) endpoint pp qp))" for rq
    using that
    by (cases "resolve_endpoint endpoint pp") (simp_all add: dunder_delete_def Let_def set_headers_def)
qed

theorem set_headers_merges_witness:
  "[''X-Token'' \<mapsto> ''abc'', ''Accept'' \<mapsto> ''text/html''] ''X-Token'' = Some ''abc'' \<and>
   [''X-Token'' \<mapsto> ''abc'', ''Accept'' \<mapsto> ''text/html''] ''User-Agent'' = None \<and>
   headers (set_headers [''X-Token'' \<mapsto> ''abc'', ''Accept'' \<mapsto> ''text/html'']
             (set_headers [''User-Agent'' \<mapsto> ''sender'', ''Accept'' \<mapsto> ''*/*''] default_handler))
     = [''User-Agent'' \<mapsto> ''sender'', ''Accept'' \<mapsto> ''text/html'', ''X-Token'' \<mapsto> ''abc''] \<and>
   sent (dunder_get (mock_down Timeout)
          (set_headers [''X-Token'' \<mapsto> ''abc'', ''Accept'' \<mapsto> ''text/html'']
             (set_headers [''User-Agent'' \<mapsto> ''sender'', ''Accept'' \<mapsto> ''*/*''] default_handler))
          ''queue/get-news/by/hours'' None None (Some mock_model))
     = [(mock_request GET ''queue/get-news/by/hours'')
          \<lparr>req_headers := [''User-Agent'' \<mapsto> ''sender'', ''Accept'' \<mapsto> ''text/html'',
                            ''X-Token'' \<mapsto> ''abc'']\<rparr>] \<and>
   sent (dunder_delete (mock_down Timeout)
          (set_headers [''X-Token'' \<mapsto> ''abc'', ''Accept'' \<mapsto> ''text/html'']
             (set_headers [''User-Agent'' \<mapsto> ''sender'', ''Accept'' \<mapsto> ''*/*''] default_handler))
          ''queue/get-news/by/hours'' None None)
     = [(mock_request DELETE ''queue/get-news/by/hours'')
          \<lparr>req_headers := [''User-Agent'' \<mapsto> ''sender'', ''Accept'' \<mapsto> ''text/html'',
                            ''X-Token'' \<mapsto> ''abc'']\<rparr>]"
  using set_headers_merges [of "[''X-Token'' \<mapsto> ''abc'', ''Accept'' \<mapsto> ''text/html'']"
      "set_headers [''User-Agent'' \<mapsto> ''sender'', ''Accept'' \<mapsto> ''*/*''] default_handler"
      "mock_down Timeout" "''queue/get-news/by/hours''" None None "Some mock_model" None "Some mock_model"]
  by (auto simp: mock_defs set_headers_def dunder_get_def dunder_delete_def resolve_endpoint_def
      Let_def fun_eq_iff)

section \<open>The shapes of the results\<close>

text \<open>
  Claim C8, amended. A call of \<^verbatim>\<open>__post__\<close> that succeeds returns the value alone, the
  model instance if a response model is given and the parsed or raw data otherwise,
  with no status code, where \<^verbatim>\<open>__get__\<close> on the same response returns the pair of the
  status code and that value. On a \<^verbatim>\<open>RequestException\<close> or a \<^verbatim>\<open>ValidationError\<close> it
  returns the bare \<^verbatim>\<open>None\<close>. An exception of any other class is not caught and is
  raised to the caller.
\<close>

theorem post_result_by_outcome:
  assumes "sent (dunder_post E self endpoint data rm) = [rq]"
  shows
    "(call_exception E rq rm = Some e \<and> (is_RequestException e \<or> e = ValidationError) \<longrightarrow>
        result (dunder_post E self endpoint data rm) = Returned (Plain PNone)) \<and>
     (call_exception E rq rm = Some e \<and> \<not> is_RequestException e \<and> e \<noteq> ValidationError \<longrightarrow>
        result (dunder_post E self endpoint data rm) = Raised e) \<and>
     (call_exception E rq rm = None \<longrightarrow>
        (\<exists>r d v. transport E rq = Inr r \<and> response_data E r = Inr d \<and>
           ((rm = None \<and> v = Plain d) \<or> (\<exists>m x. rm = Some m \<and> m d = Some x \<and> v = Instance x)) \<and>
           result (dunder_post E self endpoint data rm) = Returned v \<and>
           (\<forall>rq'. sent (dunder_get E self endpoint' pp qp rm) = [rq'] \<and> transport E rq' = Inr r \<longrightarrow>
              result (dunder_get E self endpoint' pp qp rm) = Returned (PInt (status_code r), v))))"
proof (intro conjI impI)
  assume "call_exception E rq rm = Some e \<and> (is_RequestException e \<or> e = ValidationError)"
  then show "result (dunder_post E self endpoint data rm) = Returned (Plain PNone)"
    using post_result_exception [OF assms] by auto
next
  assume "call_exception E rq rm = Some e \<and> \<not> is_RequestException e \<and> e \<noteq> ValidationError"
  then show "result (dunder_post E self endpoint data rm) = Raised e"
    using post_result_exception [OF assms] by auto
next
  assume "call_exception E rq rm = None"
  then obtain r d v where r: "transport E rq = Inr r"
    and st: "\<not> (400 \<le> status_code r \<and> status_code r < 600)"
    and d: "response_data E r = Inr d" and v: "validated rm d = Inr v"
    unfolding call_exception_None by blast
  have shape: "(rm = None \<and> v = Plain d) \<or> (\<exists>m x. rm = Some m \<and> m d = Some x \<and> v = Instance x)"
    using v by (auto simp: validated_def split: option.splits)
  have post: "result (dunder_post E self endpoint data rm) = Returned v"
    unfolding post_result_cases [OF assms] using r st d v by auto
  have get: "result (dunder_get E self endpoint' pp qp rm) = Returned (PInt (status_code r), v)"
    if "sent (dunder_get E self endpoint' pp qp rm) = [rq']" and "transport E rq' = Inr r" for rq'
    unfolding get_result_cases [OF that(1)] using that(2) st d v by auto
  from r d shape post get
  show "\<exists>r d v. transport E rq = Inr r \<and> response_data E r = Inr d \<and>
           ((rm = None \<and> v = Plain d) \<or> (\<exists>m x. rm = Some m \<and> m d = Some x \<and> v = Instance x)) \<and>
           result (dunder_post E self endpoint data rm) = Returned v \<and>
           (\<forall>rq'. sent (dunder_get E self endpoint' pp qp rm) = [rq'] \<and> transport E rq' = Inr r \<longrightarrow>
              result (dunder_get E self endpoint' pp qp rm) = Returned (PInt (status_code r), v))"
    by blast
qed

theorem post_result_by_outcome_witness:
  "sent (dunder_post (mock_server not_found_response) default_handler ''queue/add'' None
          (Some mock_model))
     = [mock_request POST ''queue/add''] \<and>
   call_exception (mock_server not_found_response) (mock_request POST ''queue/add'')
       (Some mock_model)
     = Some (RequestException (HTTPError 404)) \<and>
   is_RequestException (RequestException (HTTPError 404)) \<and>
   result (dunder_post (mock_server not_found_response) default_handler ''queue/add'' None
            (Some mock_model))
     = Returned (Plain PNone) \<and>
   sent (dunder_post (mock_server detail_response) (set_timeout 0 default_handler) ''queue/add''
          None (Some mock_model))
     = [(mock_request POST ''queue/add'')\<lparr>req_timeout := 0\<rparr>] \<and>
   call_exception (mock_server detail_response)
       ((mock_request POST ''queue/add'')\<lparr>req_timeout := 0\<rparr>) (Some mock_model)
     = Some ValueError \<and>
   \<not> is_RequestException ValueError \<and> ValueError \<noteq> ValidationError \<and>
   result (dunder_post (mock_server detail_response) (set_timeout 0 default_handler) ''queue/add''
            None (Some mock_model))
     = Raised ValueError \<and>
   call_exception (mock_server detail_response) (mock_request POST ''queue/add'') (Some mock_model)
     = None \<and>
   result (dunder_post (mock_server detail_response) default_handler ''queue/add'' None
            (Some mock_model))
     = Returned (Instance [(''seed'', PStr ''seed123'')]) \<and>
   sent (dunder_get (mock_server detail_response) default_handler ''queue/add'' None None
          (Some mock_model))
     = [mock_request GET ''queue/add''] \<and>
   transport (mock_server detail_response) (mock_request GET ''queue/add'') = Inr detail_response \<and>
   result (dunder_get (mock_server detail_response) default_handler ''queue/add'' None None
            (Some mock_model))
     = Returned (PInt 200, Instance [(''seed'', PStr ''seed123'')])"
  using
    post_result_by_outcome [of "mock_server not_found_response" default_handler "''queue/add''"
      None "Some mock_model" "mock_request POST ''queue/add''" "RequestException (HTTPError 404)"
      "''queue/add''" None None]
    post_result_by_outcome [of "mock_server detail_response" "set_timeout 0 default_handler"
      "''queue/add''" None "Some mock_model" "(mock_request POST ''queue/add'')\<lparr>req_timeout := 0\<rparr>"
      ValueError "''queue/add''" None None]
    post_result_by_outcome [of "mock_server detail_response" default_handler "''queue/add''"
      None "Some mock_model" "mock_request POST ''queue/add''" ValueError "''queue/add''" None None]
  by (simp add: mock_defs verb_defs call_exception_def)

text \<open>
  After \<^verbatim>\<open>set_timeout(0)\<close> the library refuses the call with \<^verbatim>\<open>ValueError\<close>, which
  \<^verbatim>\<open>__post__\<close> does not catch: it raises instead of returning \<^verbatim>\<open>None\<close>.
\<close>

theorem post_timeout_zero_counterexample:
  "result (dunder_post (mock_server detail_response) (set_timeout 0 default_handler) ''queue/add''
            None (Some mock_model))
     = Raised ValueError \<and>
   result (dunder_post (mock_server detail_response) (set_timeout 0 default_handler) ''queue/add''
            None (Some mock_model))
     \<noteq> Returned (Plain PNone)"
  by (simp add: mock_defs verb_defs)

text \<open>
  Claim C9, amended. Whenever the underlying call returns its pair,
  \<^verbatim>\<open>get_detail_by_seed\<close>, \<^verbatim>\<open>get_last_news_queue\<close> and \<^verbatim>\<open>get_last_news_send\<close> return
  exactly its second component, the status code dropped: the payload on success, and
  \<^verbatim>\<open>None\<close> when the call failed and the pair is \<^verbatim>\<open>(None, None)\<close>. The only other
  case is that the underlying call raises an exception that is neither a
  \<^verbatim>\<open>RequestException\<close> nor a \<^verbatim>\<open>ValidationError\<close>; then the method raises it too. The
  method sends what the underlying call sends.
\<close>

theorem convenience_methods_unwrap:
  "((\<exists>s v. result (dunder_get_detail_by_seed S E self seed) = Returned (s, v) \<and>
        (s = PNone \<longrightarrow> v = Plain PNone) \<and>
        result (get_detail_by_seed S E self seed) = Returned v) \<or>
    (\<exists>e. result (dunder_get_detail_by_seed S E self seed) = Raised e \<and>
        \<not> is_RequestException e \<and> e \<noteq> ValidationError \<and>
        result (get_detail_by_seed S E self seed) = Raised e)) \<and>
   ((\<exists>s v. result (dunder_get_last_queue S E self) = Returned (s, v) \<and>
        (s = PNone \<longrightarrow> v = Plain PNone) \<and>
        result (get_last_news_queue S E self) = Returned v) \<or>
    (\<exists>e. result (dunder_get_last_queue S E self) = Raised e \<and>
        \<not> is_RequestException e \<and> e \<noteq> ValidationError \<and>
        result (get_last_news_queue S E self) = Raised e)) \<and>
   ((\<exists>s v. result (dunder_get_last_send_news S E self) = Returned (s, v) \<and>
        (s = PNone \<longrightarrow> v = Plain PNone) \<and>
        result (get_last_news_send S E self) = Returned v) \<or>
    (\<exists>e. result (dunder_get_last_send_news S E self) = Raised e \<and>
        \<not> is_RequestException e \<and> e \<noteq> ValidationError \<and>
        result (get_last_news_send S E self) = Raised e)) \<and>
   sent (get_detail_by_seed S E self seed) = sent (dunder_get_detail_by_seed S E self seed) \<and>
   sent (get_last_news_queue S E self) = sent (dunder_get_last_queue S E self) \<and>
   sent (get_last_news_send S E self) = sent (dunder_get_last_send_news S E self)"
proof (intro conjI)
  have "resolve_endpoint ''all-news/detail-by-seed/{seed}'' (Some (DetailBySeed seed)) =
      Returned (''all-news/detail-by-seed/'' @ seed)"
    by (simp add: resolve_endpoint_def format_detail_by_seed del: str_format.simps)
  from get_outcome_cases [OF this, of E self None "Some (DetailBySeedResponse S)"]
  show "(\<exists>s v. result (dunder_get_detail_by_seed S E self seed) = Returned (s, v) \<and>
        (s = PNone \<longrightarrow> v = Plain PNone) \<and>
        result (get_detail_by_seed S E self seed) = Returned v) \<or>
    (\<exists>e. result (dunder_get_detail_by_seed S E self seed) = Raised e \<and>
        \<not> is_RequestException e \<and> e \<noteq> ValidationError \<and>
        result (get_detail_by_seed S E self seed) = Raised e)"
    by (auto simp: get_detail_by_seed_def item1_def dunder_get_detail_by_seed_def
        simp del: str_format.simps)
next
  have "resolve_endpoint ''queue/get-news/by/hours'' None = Returned ''queue/get-news/by/hours''"
    by (simp add: resolve_endpoint_def)
  from get_outcome_cases [OF this, of E self None "Some (PostQueueList S)"]
  show "(\<exists>s v. result (dunder_get_last_queue S E self) = Returned (s, v) \<and>
        (s = PNone \<longrightarrow> v = Plain PNone) \<and>
        result (get_last_news_queue S E self) = Returned v) \<or>
    (\<exists>e. result (dunder_get_last_queue S E self) = Raised e \<and>
        \<not> is_RequestException e \<and> e \<noteq> ValidationError \<and>
        result (get_last_news_queue S E self) = Raised e)"
    by (auto simp: get_last_news_queue_def item1_def dunder_get_last_queue_def)
next
  have "resolve_endpoint ''send-news/get-news/by/hours'' None = Returned ''send-news/get-news/by/hours''"
    by (simp add: resolve_endpoint_def)
  from get_outcome_cases [OF this, of E self None "Some (PostSendNewsList S)"]
  show "(\<exists>s v. result (dunder_get_last_send_news S E self) = Returned (s, v) \<and>
        (s = PNone \<longrightarrow> v = Plain PNone) \<and>
        result (get_last_news_send S E self) = Returned v) \<or>
    (\<exists>e. result (dunder_get_last_send_news S E self) = Raised e \<and>
        \<not> is_RequestException e \<and> e \<noteq> ValidationError \<and>
        result (get_last_news_send S E self) = Raised e)"
    by (auto simp: get_last_news_send_def item1_def dunder_get_last_send_news_def)
qed (simp_all add: get_detail_by_seed_def get_last_news_queue_def get_last_news_send_def item1_def)

theorem convenience_methods_unwrap_witness:
  "result (dunder_get_detail_by_seed mock_schemas (mock_server detail_response) default_handler
            ''seed123'')
     = Returned (PInt 200, Instance [(''seed'', PStr ''seed123'')]) \<and>
   result (get_detail_by_seed mock_schemas (mock_server detail_response) default_handler ''seed123'')
     = Returned (Instance [(''seed'', PStr ''seed123'')]) \<and>
   result (dunder_get_detail_by_seed mock_schemas (mock_server not_found_response) default_handler
            ''seed123'')
     = Returned (PNone, Plain PNone) \<and>
   result (get_detail_by_seed mock_schemas (mock_server not_found_response) default_handler ''seed123'')
     = Returned (Plain PNone) \<and>
   result (get_last_news_queue mock_schemas (mock_down ConnectionError) default_handler)
     = Returned (Plain PNone) \<and>
   result (get_last_news_send mock_schemas (mock_server detail_response) default_handler)
     = Returned (Instance [(''seed'', PStr ''seed123'')]) \<and>
   result (dunder_get_last_send_news mock_schemas (mock_server detail_response)
            (set_timeout 0 default_handler))
     = Raised ValueError \<and>
   result (get_last_news_send mock_schemas (mock_server detail_response)
            (set_timeout 0 default_handler))
     = Raised ValueError"
  using
    convenience_methods_unwrap [of mock_schemas "mock_server detail_response"
      default_handler "''seed123''"]
    convenience_methods_unwrap [of mock_schemas "mock_server not_found_response"
      default_handler "''seed123''"]
    convenience_methods_unwrap [of mock_schemas "mock_down ConnectionError"
      default_handler "''seed123''"]
    convenience_methods_unwrap [of mock_schemas "mock_server detail_response"
      "set_timeout 0 default_handler" "''seed123''"]
  by (simp add: mock_defs verb_defs get_detail_by_seed_def get_last_news_queue_def
      get_last_news_send_def dunder_get_detail_by_seed_def dunder_get_last_queue_def
      dunder_get_last_send_news_def item1_def DetailBySeed_def render_field_def is_digit_def)

text \<open>
  After \<^verbatim>\<open>set_timeout(0)\<close>, \<^verbatim>\<open>get_last_news_queue\<close> raises \<^verbatim>\<open>ValueError\<close> and returns
  nothing.
\<close>

theorem queue_timeout_zero_counterexample:
  "result (get_last_news_queue mock_schemas (mock_server detail_response)
            (set_timeout 0 default_handler))
     = Raised ValueError"
  by (simp add: mock_defs verb_defs get_last_news_queue_def dunder_get_last_queue_def item1_def)

text \<open>
  Claim C10, amended. A pair \<^verbatim>\<open>(s, v)\<close> returned by \<^verbatim>\<open>__get__\<close> has one of two shapes.
  If the call failed it is \<^verbatim>\<open>(None, None)\<close>. Otherwise \<open>s\<close> is the status code of the
  response, which is not from 400 to 599, and \<open>v\<close> is the parsed body, validated when a
  response model is given. So \<open>s\<close> is \<^verbatim>\<open>None\<close> exactly when the call failed, and a
  status from 400 to 599 is never returned.
\<close>

theorem get_result_shapes:
  "result (dunder_get E self endpoint pp qp rm) = Returned (s, v) \<longrightarrow>
     (\<exists>rq. sent (dunder_get E self endpoint pp qp rm) = [rq] \<and>
        (s = PNone \<longleftrightarrow> call_fails E rq rm) \<and>
        (call_fails E rq rm \<longrightarrow> s = PNone \<and> v = Plain PNone) \<and>
        (\<not> call_fails E rq rm \<longrightarrow>
           (\<exists>r d. transport E rq = Inr r \<and> s = PInt (status_code r) \<and>
              \<not> (400 \<le> status_code r \<and> status_code r < 600) \<and>
              response_data E r = Inr d \<and> validated rm d = Inr v)))"
proof
  assume res: "result (dunder_get E self endpoint pp qp rm) = Returned (s, v)"
  then obtain rq where rq: "sent (dunder_get E self endpoint pp qp rm) = [rq]"
    by (cases "resolve_endpoint endpoint pp") (auto simp: dunder_get_def Let_def)
  have fails: "s = PNone \<and> v = Plain PNone" if "call_fails E rq rm"
  proof -
    from that obtain e where "call_exception E rq rm = Some e"
      unfolding call_fails_iff by blast
    from get_result_exception [OF rq this] res show ?thesis
      by (auto split: if_splits)
  qed
  have ok: "\<exists>r d. transport E rq = Inr r \<and> s = PInt (status_code r) \<and>
              \<not> (400 \<le> status_code r \<and> status_code r < 600) \<and>
              response_data E r = Inr d \<and> validated rm d = Inr v" if "\<not> call_fails E rq rm"
  proof -
    from that have "call_exception E rq rm = None"
      unfolding call_fails_iff by simp
    then obtain r d v' where r: "transport E rq = Inr r"
      and st: "\<not> (400 \<le> status_code r \<and> status_code r < 600)"
      and d: "response_data E r = Inr d" and v': "validated rm d = Inr v'"
      unfolding call_exception_None by blast
    have "result (dunder_get E self endpoint pp qp rm) = Returned (PInt (status_code r), v')"
      unfolding get_result_cases [OF rq] using r st d v' by auto
    with res r st d v' show ?thesis by auto
  qed
  have "s = PNone \<longleftrightarrow> call_fails E rq rm"
    using fails ok by auto
  with rq fails ok show "\<exists>rq. sent (dunder_get E self endpoint pp qp rm) = [rq] \<and>
        (s = PNone \<longleftrightarrow> call_fails E rq rm) \<and>
        (call_fails E rq rm \<longrightarrow> s = PNone \<and> v = Plain PNone) \<and>
        (\<not> call_fails E rq rm \<longrightarrow>
           (\<exists>r d. transport E rq = Inr r \<and> s = PInt (status_code r) \<and>
              \<not> (400 \<le> status_code r \<and> status_code r < 600) \<and>
              response_data E r = Inr d \<and> validated rm d = Inr v))"
    by blast
qed

theorem get_result_shapes_witness:
  "result (dunder_get (mock_server detail_response) default_handler ''queue/get-news/by/hours''
            None None (Some mock_model))
     = Returned (PInt 200, Instance [(''seed'', PStr ''seed123'')]) \<and>
   sent (dunder_get (mock_server detail_response) default_handler ''queue/get-news/by/hours''
            None None (Some mock_model))
     = [mock_request GET ''queue/get-news/by/hours''] \<and>
   \<not> call_fails (mock_server detail_response) (mock_request GET ''queue/get-news/by/hours'')
       (Some mock_model) \<and>
   result (dunder_get (mock_server not_found_response) default_handler ''queue/get-news/by/hours''
            None None (Some mock_model))
     = Returned (PNone, Plain PNone) \<and>
   call_fails (mock_server not_found_response) (mock_request GET ''queue/get-news/by/hours'')
       (Some mock_model)"
  using
    get_result_shapes [of "mock_server detail_response" default_handler
      "''queue/get-news/by/hours''" None None "Some mock_model" "PInt 200"
      "Instance [(''seed'', PStr ''seed123'')]"]
    get_result_shapes [of "mock_server not_found_response" default_handler
      "''queue/get-news/by/hours''" None None "Some mock_model" PNone "Plain PNone"]
  by (simp add: mock_defs verb_defs call_fails_def)

text \<open>
  The status need not be from 200 to 299: \<^verbatim>\<open>304 Not Modified\<close> passes
  \<^verbatim>\<open>raise_for_status\<close> and is returned with the body.
\<close>

theorem not_modified_status_counterexample:
  "\<not> (200 \<le> (304::int) \<and> (304::int) < 300) \<and>
   result (dunder_get (mock_server \<lparr>status_code = 304, content_type = None, resp_text = ''''\<rparr>)
            default_handler ''queue/get-news/by/hours'' None None
            (None :: BaseModel response_model option))
     = Returned (PInt 304, Plain (PStr ''''))"
  by (simp add: mock_defs verb_defs)

end
